theory Spec2Isabelle
  imports Main "HOL-Library.Multiset"
begin

section \<open>Data model (types/inventory.ts)\<close>

text \<open>
  A TypeScript \<^verbatim>\<open>number\<close> is modelled as \<^typ>\<open>int\<close>: the theory covers the
  integer quantities (the quantity inputs of the forms have the default step of 1), on
  which the arithmetic of the ledger (one subtraction, one negation, comparisons) is
  exact. Rounding of fractional doubles, \<^verbatim>\<open>NaN\<close> and the infinities are outside
  the model.

  A timestamp is the number of milliseconds since the epoch; \<^verbatim>\<open>toISOString()\<close>
  renders that number injectively, so the rendered strings are equal exactly when the
  numbers are, and are ordered as the numbers are. An optional field
  (\<^verbatim>\<open>description?: string\<close>) is an \<^typ>\<open>'a option\<close>.
\<close>

datatype InventoryCategory =
  reagent | diluent | antibody_conjugate | unconjugated_antibody | calibrator | reaction_kit

datatype TransactionType = Add | Remove | Adjust | Transfer

text \<open>
  \<^verbatim>\<open>Omit<InventoryItem, 'id' | 'userId' | 'createdAt' | 'updatedAt'>\<close>, the argument
  of \<^verbatim>\<open>addItem\<close>. \<^verbatim>\<open>InventoryItem\<close> extends it by the four omitted fields.
\<close>

record ItemData =
  name :: string
  category :: InventoryCategory
  description :: "string option"
  manufacturer :: "string option"
  catalogNumber :: "string option"
  lotNumber :: "string option"
  quantity :: int
  unit :: string
  location :: "string option"
  storageConditions :: "string option"
  expirationDate :: "string option"
  purchaseDate :: "string option"
  costPerUnit :: "int option"
  supplier :: "string option"
  minimumStockLevel :: int
  barcode :: "string option"
  notes_item :: "string option"

record InventoryItem = ItemData +
  id_item :: string
  userId :: string
  createdAt :: int
  updatedAt :: int

record InventoryTransaction =
  id_tx :: string
  itemId :: string
  transactionType :: TransactionType
  quantityChange :: int
  previousQuantity :: int
  newQuantity :: int
  reason :: "string option"
  performedBy :: string
  userId_tx :: string
  createdAt_tx :: int

text \<open>
  \<^verbatim>\<open>Partial<InventoryItem>\<close>: every key may be absent (\<open>None\<close>) or present with a
  value. For an optional field of the item the value may itself be \<^verbatim>\<open>undefined\<close>.
\<close>

record InventoryItemPartial =
  name_p :: "string option"
  category_p :: "InventoryCategory option"
  description_p :: "string option option"
  manufacturer_p :: "string option option"
  catalogNumber_p :: "string option option"
  lotNumber_p :: "string option option"
  quantity_p :: "int option"
  unit_p :: "string option"
  location_p :: "string option option"
  storageConditions_p :: "string option option"
  expirationDate_p :: "string option option"
  purchaseDate_p :: "string option option"
  costPerUnit_p :: "int option option"
  supplier_p :: "string option option"
  minimumStockLevel_p :: "int option"
  barcode_p :: "string option option"
  notes_p :: "string option option"
  id_p :: "string option"
  userId_p :: "string option"
  createdAt_p :: "int option"
  updatedAt_p :: "int option"

definition no_updates :: InventoryItemPartial where
  "no_updates =
     \<lparr>name_p = None, category_p = None, description_p = None, manufacturer_p = None,
      catalogNumber_p = None, lotNumber_p = None, quantity_p = None, unit_p = None,
      location_p = None, storageConditions_p = None, expirationDate_p = None,
      purchaseDate_p = None, costPerUnit_p = None, supplier_p = None,
      minimumStockLevel_p = None, barcode_p = None, notes_p = None, id_p = None,
      userId_p = None, createdAt_p = None, updatedAt_p = None\<rparr>"

section \<open>The provider's state and its collaborators\<close>

text \<open>The three \<^verbatim>\<open>useState\<close> cells of \<^verbatim>\<open>InventoryProvider\<close>.\<close>

record Ledger =
  items :: "InventoryItem list"
  transactions :: "InventoryTransaction list"
  loading :: bool

record User =
  id_user :: string
  email :: "string option"

text \<open>The calls the provider makes on \<^verbatim>\<open>blink.db\<close>, with their arguments.\<close>

datatype db_call =
    ItemsList string
  | TransactionsList string nat
  | ItemsCreate InventoryItem
  | ItemsUpdate string InventoryItemPartial
  | ItemsDelete string
  | TransactionsCreate InventoryTransaction

text \<open>
  Everything an operation reads from outside the provider, made explicit:
  \<^item> \<open>auth_me e k\<close>: the \<open>k\<close>-th call of \<^verbatim>\<open>blink.auth.me()\<close> in the operation,
    \<open>None\<close> when it rejects;
  \<^item> \<open>db_ok e c\<close>: whether the persistence call \<open>c\<close> resolves (it rejects otherwise);
  \<^item> \<open>clock e k\<close>: the \<open>k\<close>-th reading of the wall clock (\<^verbatim>\<open>new Date()\<close>,
    \<^verbatim>\<open>Date.now()\<close>) in the operation, in milliseconds;
  \<^item> \<open>random36 e k\<close>: the \<open>k\<close>-th \<^verbatim>\<open>Math.random().toString(36).substr(2, 9)\<close>;
  \<^item> \<open>date_parse e\<close>: the time value of \<^verbatim>\<open>new Date(string)\<close>, \<open>None\<close> for an
    invalid date;
  \<^item> \<open>date_add_days e t d\<close>: the time value after
    \<^verbatim>\<open>setDate(getDate() + d)\<close> on a date of time value \<open>t\<close>;
  \<^item> \<open>stored_items e\<close>, \<open>stored_transactions e\<close>: the rows of the two tables of the
    persistent store;
  \<^item> \<open>mockInventoryItems e\<close>: the constant of \<^verbatim>\<open>data/mockInventory\<close>.
\<close>

record env =
  auth_me :: "nat \<Rightarrow> User option"
  db_ok :: "db_call \<Rightarrow> bool"
  clock :: "nat \<Rightarrow> int"
  random36 :: "nat \<Rightarrow> string"
  date_parse :: "string \<Rightarrow> int option"
  date_add_days :: "int \<Rightarrow> int \<Rightarrow> int"
  stored_items :: "InventoryItem list"
  stored_transactions :: "InventoryTransaction list"
  mockInventoryItems :: "InventoryItem list"

text \<open>
  What a rejected promise carries: the \<^verbatim>\<open>Error('Item not found')\<close> the provider
  throws itself, or the opaque error of a collaborator.
\<close>

datatype error = ItemNotFound | AuthFailure | PersistenceFailure

text \<open>
  The outcome of one operation: whether the promise resolves or rejects, the state of
  the provider afterwards, and the persistence calls issued, in order (a rejected call
  is the last of the list).
\<close>

record outcome =
  result :: "error + unit"
  ledger :: Ledger
  issued :: "db_call list"

definition rejects :: "error \<Rightarrow> Ledger \<Rightarrow> db_call list \<Rightarrow> outcome" where
  "rejects err s cs = \<lparr>result = Inl err, ledger = s, issued = cs\<rparr>"

definition resolves :: "Ledger \<Rightarrow> db_call list \<Rightarrow> outcome" where
  "resolves s cs = \<lparr>result = Inr (), ledger = s, issued = cs\<rparr>"

section \<open>Helpers of the provider\<close>

fun decimal :: "nat \<Rightarrow> string" where
  "decimal n =
     (if n < 10 then [''0123456789'' ! n]
      else decimal (n div 10) @ [''0123456789'' ! (n mod 10)])"

declare decimal.simps [simp del]

definition toString :: "int \<Rightarrow> string" where
  "toString i = (if i < 0 then CHR ''-'' # decimal (nat (- i)) else decimal (nat i))"

text \<open>
  \<^verbatim>\<open>Date.now().toString() + Math.random().toString(36).substr(2, 9)\<close>; \<open>k\<close> and
  \<open>j\<close> say which reading of the clock and which random draw of the operation it is.
\<close>

definition generateId :: "env \<Rightarrow> nat \<Rightarrow> nat \<Rightarrow> string" where
  "generateId e k j = toString (clock e k) @ random36 e j"

text \<open>\<^verbatim>\<open>user.email || user.id\<close>: an absent or empty email is falsy.\<close>

definition email_or_id :: "User \<Rightarrow> string" where
  "email_or_id user =
     (case email user of
        None \<Rightarrow> id_user user
      | Some m \<Rightarrow> if m = [] then id_user user else m)"

text \<open>
  One key of \<^verbatim>\<open>{ ...item, ...updates }\<close>: a key present in the updates wins.
\<close>

definition spread :: "'a \<Rightarrow> 'a option \<Rightarrow> 'a" where
  "spread old upd = (case upd of None \<Rightarrow> old | Some v \<Rightarrow> v)"

definition merge :: "InventoryItem \<Rightarrow> InventoryItemPartial \<Rightarrow> InventoryItem" where
  "merge item u =
     item\<lparr>name := spread (name item) (name_p u),
          category := spread (category item) (category_p u),
          description := spread (description item) (description_p u),
          manufacturer := spread (manufacturer item) (manufacturer_p u),
          catalogNumber := spread (catalogNumber item) (catalogNumber_p u),
          lotNumber := spread (lotNumber item) (lotNumber_p u),
          quantity := spread (quantity item) (quantity_p u),
          unit := spread (unit item) (unit_p u),
          location := spread (location item) (location_p u),
          storageConditions := spread (storageConditions item) (storageConditions_p u),
          expirationDate := spread (expirationDate item) (expirationDate_p u),
          purchaseDate := spread (purchaseDate item) (purchaseDate_p u),
          costPerUnit := spread (costPerUnit item) (costPerUnit_p u),
          supplier := spread (supplier item) (supplier_p u),
          minimumStockLevel := spread (minimumStockLevel item) (minimumStockLevel_p u),
          barcode := spread (barcode item) (barcode_p u),
          notes_item := spread (notes_item item) (notes_p u),
          id_item := spread (id_item item) (id_p u),
          userId := spread (userId item) (userId_p u),
          createdAt := spread (createdAt item) (createdAt_p u),
          updatedAt := spread (updatedAt item) (updatedAt_p u)\<rparr>"

section \<open>The mutating operations of the provider\<close>

text \<open>
  \<^verbatim>\<open>addItem\<close>. The object literal of the new item reads the clock three times, in
  this order: inside \<^verbatim>\<open>generateId()\<close>, for \<^verbatim>\<open>createdAt\<close> and for \<^verbatim>\<open>updatedAt\<close>.
  The state setters run only after the awaited persistence call has resolved; the
  \<^verbatim>\<open>catch\<close> block rethrows.
\<close>

definition addItem :: "env \<Rightarrow> ItemData \<Rightarrow> Ledger \<Rightarrow> outcome" where
  "addItem e itemData s =
     (case auth_me e 0 of
        None \<Rightarrow> rejects AuthFailure s []
      | Some user \<Rightarrow>
          let newItem = ItemData.extend itemData
                (InventoryItem.fields (generateId e 0 0) (id_user user) (clock e 1) (clock e 2))
          in if \<not> db_ok e (ItemsCreate newItem)
             then rejects PersistenceFailure s [ItemsCreate newItem]
             else
               let s1 = s\<lparr>items := items s @ [newItem]\<rparr>;
                   transaction =
                     \<lparr>id_tx = generateId e 3 1,
                      itemId = id_item newItem,
                      transactionType = Add,
                      quantityChange = quantity newItem,
                      previousQuantity = 0,
                      newQuantity = quantity newItem,
                      reason = Some ''Initial stock'',
                      performedBy = email_or_id user,
                      userId_tx = id_user user,
                      createdAt_tx = clock e 4\<rparr>
               in if \<not> db_ok e (TransactionsCreate transaction)
                  then rejects PersistenceFailure s1
                         [ItemsCreate newItem, TransactionsCreate transaction]
                  else resolves (s1\<lparr>transactions := transactions s1 @ [transaction]\<rparr>)
                         [ItemsCreate newItem, TransactionsCreate transaction])"

text \<open>
  \<^verbatim>\<open>updateItem\<close>: \<^verbatim>\<open>{ ...updates, updatedAt: new Date().toISOString() }\<close>, then
  the update of the store, then the map over the items.
\<close>

definition updateItem :: "env \<Rightarrow> string \<Rightarrow> InventoryItemPartial \<Rightarrow> Ledger \<Rightarrow> outcome" where
  "updateItem e ident updates s =
     (let updatedData = updates\<lparr>updatedAt_p := Some (clock e 0)\<rparr>
      in if \<not> db_ok e (ItemsUpdate ident updatedData)
         then rejects PersistenceFailure s [ItemsUpdate ident updatedData]
         else resolves
                (s\<lparr>items := map (\<lambda>item. if id_item item = ident then merge item updatedData
                                        else item) (items s)\<rparr>)
                [ItemsUpdate ident updatedData])"

text \<open>\<^verbatim>\<open>deleteItem\<close>. The user is read after the item has been deleted.\<close>

definition deleteItem :: "env \<Rightarrow> string \<Rightarrow> Ledger \<Rightarrow> outcome" where
  "deleteItem e ident s =
     (case find (\<lambda>i. id_item i = ident) (items s) of
        None \<Rightarrow> rejects ItemNotFound s []
      | Some item \<Rightarrow>
          if \<not> db_ok e (ItemsDelete ident)
          then rejects PersistenceFailure s [ItemsDelete ident]
          else
            let s1 = s\<lparr>items := filter (\<lambda>item. id_item item \<noteq> ident) (items s)\<rparr>
            in (case auth_me e 0 of
                 None \<Rightarrow> rejects AuthFailure s1 [ItemsDelete ident]
               | Some user \<Rightarrow>
                   let transaction =
                         \<lparr>id_tx = generateId e 0 0,
                          itemId = ident,
                          transactionType = Remove,
                          quantityChange = - quantity item,
                          previousQuantity = quantity item,
                          newQuantity = 0,
                          reason = Some ''Item deleted'',
                          performedBy = email_or_id user,
                          userId_tx = id_user user,
                          createdAt_tx = clock e 1\<rparr>
                   in if \<not> db_ok e (TransactionsCreate transaction)
                      then rejects PersistenceFailure s1
                             [ItemsDelete ident, TransactionsCreate transaction]
                      else resolves (s1\<lparr>transactions := transactions s1 @ [transaction]\<rparr>)
                             [ItemsDelete ident, TransactionsCreate transaction]))"

text \<open>
  \<^verbatim>\<open>updateQuantity\<close>. The parameter \<^verbatim>\<open>reason = 'Manual adjustment'\<close> takes its
  default when the argument is absent (\<open>None\<close>). The store receives the partial item
  \<^verbatim>\<open>{ quantity: newQuantity, updatedAt }\<close>.
\<close>

definition updateQuantity ::
    "env \<Rightarrow> string \<Rightarrow> int \<Rightarrow> string option \<Rightarrow> Ledger \<Rightarrow> outcome" where
  "updateQuantity e ident newQuantity' reason' s =
     (case find (\<lambda>i. id_item i = ident) (items s) of
        None \<Rightarrow> rejects ItemNotFound s []
      | Some item \<Rightarrow>
          let previousQuantity' = quantity item;
              quantityChange' = newQuantity' - previousQuantity';
              updatedAt' = clock e 0;
              upd = ItemsUpdate ident
                      (no_updates\<lparr>quantity_p := Some newQuantity', updatedAt_p := Some updatedAt'\<rparr>)
          in if \<not> db_ok e upd then rejects PersistenceFailure s [upd]
             else
               let s1 = s\<lparr>items := map (\<lambda>item. if id_item item = ident
                                then item\<lparr>quantity := newQuantity', updatedAt := updatedAt'\<rparr>
                                else item) (items s)\<rparr>
               in (case auth_me e 0 of
                    None \<Rightarrow> rejects AuthFailure s1 [upd]
                  | Some user \<Rightarrow>
                      let transactionType' =
                            (if quantityChange' > 0 then Add
                             else if quantityChange' < 0 then Remove else Adjust);
                          transaction =
                            \<lparr>id_tx = generateId e 1 0,
                             itemId = ident,
                             transactionType = transactionType',
                             quantityChange = quantityChange',
                             previousQuantity = previousQuantity',
                             newQuantity = newQuantity',
                             reason = Some (case reason' of None \<Rightarrow> ''Manual adjustment''
                                            | Some r \<Rightarrow> r),
                             performedBy = email_or_id user,
                             userId_tx = id_user user,
                             createdAt_tx = clock e 2\<rparr>
                      in if \<not> db_ok e (TransactionsCreate transaction)
                         then rejects PersistenceFailure s1 [upd, TransactionsCreate transaction]
                         else resolves (s1\<lparr>transactions := transactions s1 @ [transaction]\<rparr>)
                                [upd, TransactionsCreate transaction]))"

section \<open>The derived views\<close>

definition getItemById :: "Ledger \<Rightarrow> string \<Rightarrow> InventoryItem option" where
  "getItemById s ident = find (\<lambda>item. id_item item = ident) (items s)"

definition getLowStockItems :: "Ledger \<Rightarrow> InventoryItem list" where
  "getLowStockItems s = filter (\<lambda>item. quantity item \<le> minimumStockLevel item) (items s)"


section \<open>Loading\<close>

text \<open>
  Modelled from the spec: the \<^verbatim>\<open>list(filter, ordering, limit?)\<close> of the persistent
  store, an external service whose code is not part of the sources. The provider asks
  for the rows of one user (\<^verbatim>\<open>where: { userId }\<close>), newest first
  (\<^verbatim>\<open>orderBy: { createdAt: 'desc' }\<close>), and for the transactions at most
  \<^verbatim>\<open>limit\<close> of them.
\<close>

definition db_list_items :: "env \<Rightarrow> string \<Rightarrow> InventoryItem list" where
  "db_list_items e uid =
     sort_key (\<lambda>i. - createdAt i) (filter (\<lambda>i. userId i = uid) (stored_items e))"

definition db_list_transactions :: "env \<Rightarrow> string \<Rightarrow> nat \<Rightarrow> InventoryTransaction list" where
  "db_list_transactions e uid limit =
     take limit
       (sort_key (\<lambda>t. - createdAt_tx t) (filter (\<lambda>t. userId_tx t = uid) (stored_transactions e)))"

text \<open>
  The \<^verbatim>\<open>for\<close> loop of \<^verbatim>\<open>initializeSampleData\<close>: it stops at the first create
  that rejects. The result says whether every create resolved, with the calls issued.
\<close>

fun create_each :: "env \<Rightarrow> InventoryItem list \<Rightarrow> bool \<times> db_call list" where
  "create_each e [] = (True, [])"
| "create_each e (item # rest) =
     (if \<not> db_ok e (ItemsCreate item) then (False, [ItemsCreate item])
      else (case create_each e rest of (ok, cs) \<Rightarrow> (ok, ItemsCreate item # cs)))"

text \<open>
  \<^verbatim>\<open>initializeSampleData\<close>; \<open>k\<close> says which call of \<^verbatim>\<open>blink.auth.me()\<close> of the
  operation it makes. Its \<^verbatim>\<open>catch\<close> block only logs.
\<close>

definition initializeSampleData :: "env \<Rightarrow> nat \<Rightarrow> Ledger \<Rightarrow> Ledger \<times> db_call list" where
  "initializeSampleData e k s =
     (case auth_me e k of
        None \<Rightarrow> (s, [])
      | Some user \<Rightarrow>
          let sampleItems =
                map (\<lambda>(n, item). item\<lparr>userId := id_user user, id_item := generateId e n n\<rparr>)
                  (enumerate 0 (mockInventoryItems e))
          in (case create_each e sampleItems of
                (ok, cs) \<Rightarrow> (if ok then s\<lparr>items := sampleItems\<rparr> else s, cs)))"

text \<open>
  \<^verbatim>\<open>loadInventoryData\<close>. Any rejection inside the \<^verbatim>\<open>try\<close> block leads to the
  \<^verbatim>\<open>catch\<close> block, which seeds the sample data when no item is in memory; the
  \<^verbatim>\<open>finally\<close> block clears the loading flag. The promise always resolves.
\<close>

definition loadInventoryData :: "env \<Rightarrow> Ledger \<Rightarrow> Ledger \<times> db_call list" where
  "loadInventoryData e s =
     (let s0 = s\<lparr>loading := True\<rparr>;
          catch = (\<lambda>cs.
            if length (items s) = 0
            then (case initializeSampleData e 1 s0 of
                    (s1, cs1) \<Rightarrow> (s1\<lparr>loading := False\<rparr>, cs @ cs1))
            else (s0\<lparr>loading := False\<rparr>, cs))
      in case auth_me e 0 of
           None \<Rightarrow> catch []
         | Some user \<Rightarrow>
             let li = ItemsList (id_user user);
                 lt = TransactionsList (id_user user) 100
             in if \<not> db_ok e li then catch [li]
                else if \<not> db_ok e lt then catch [li, lt]
                else (s0\<lparr>items := db_list_items e (id_user user),
                         transactions := db_list_transactions e (id_user user) 100,
                         loading := False\<rparr>,
                      [li, lt]))"

section \<open>Operations as commands\<close>






section \<open>A laboratory used in the examples\<close>

definition lab_user :: User where
  "lab_user = \<lparr>id_user = ''u1'', email = Some ''lab@example.org''\<rparr>"

definition buffer_data :: ItemData where
  "buffer_data =
     \<lparr>name = ''PBS Buffer'', category = diluent, description = None, manufacturer = None,
      catalogNumber = None, lotNumber = None, quantity = 50, unit = ''ml'', location = None,
      storageConditions = None, expirationDate = None, purchaseDate = None,
      costPerUnit = None, supplier = None, minimumStockLevel = 10, barcode = None,
      notes_item = None\<rparr>"

text \<open>
  An item of the store, created at time 500. Its expiration date lies one hour before
  time 1000.
\<close>

definition stored_kit :: InventoryItem where
  "stored_kit =
     \<lparr>name = ''ELISA Kit'', category = reaction_kit, description = None, manufacturer = None,
      catalogNumber = None, lotNumber = None, quantity = 3, unit = ''kits'', location = None,
      storageConditions = None, expirationDate = Some ''1969-12-31T23:00:01Z'',
      purchaseDate = None, costPerUnit = None, supplier = None, minimumStockLevel = 5,
      barcode = None, notes_item = None, id_item = ''k1'', userId = ''u1'', createdAt = 500,
      updatedAt = 500\<rparr>"

text \<open>
  An environment in which every collaborator answers: the clock advances by one
  millisecond from reading to reading, starting at \<open>start\<close>, and a day has
  86 400 000 milliseconds.
\<close>

definition lab_env :: "int \<Rightarrow> env" where
  "lab_env start =
     \<lparr>auth_me = (\<lambda>k. Some lab_user),
      db_ok = (\<lambda>c. True),
      clock = (\<lambda>k. start + int k),
      random36 = (\<lambda>k. ''x7k2m9qa'' @ decimal k),
      date_parse = (\<lambda>str. if str = ''1969-12-31T23:00:01Z'' then Some (- 3599000) else None),
      date_add_days = (\<lambda>t d. t + d * 86400000),
      stored_items = [stored_kit],
      stored_transactions = [],
      mockInventoryItems = []\<rparr>"


definition empty_ledger :: Ledger where
  "empty_ledger = \<lparr>items = [], transactions = [], loading = True\<rparr>"

text \<open>
  The state after loading from the store at time 1000, and after adding the buffer to
  it at time 2000.
\<close>

definition loaded_ledger :: Ledger where
  "loaded_ledger = fst (loadInventoryData (lab_env 1000) empty_ledger)"

definition buffer_ledger :: Ledger where
  "buffer_ledger = ledger (addItem (lab_env 2000) buffer_data loaded_ledger)"

definition buffer_id :: string where
  "buffer_id = generateId (lab_env 2000) 0 0"

definition buffer_item :: InventoryItem where
  "buffer_item =
     ItemData.extend buffer_data (InventoryItem.fields buffer_id ''u1'' 2001 2002)"


text \<open>Moving the kit: the only key of the updates is the location.\<close>

definition kit_moved :: InventoryItemPartial where
  "kit_moved = no_updates\<lparr>location_p := Some (Some ''Freezer 2'')\<rparr>"

section \<open>Facts about the examples\<close>

lemmas op_defs =
  addItem_def updateItem_def deleteItem_def updateQuantity_def rejects_def resolves_def Let_def

lemma loaded_items: "items loaded_ledger = [stored_kit]"
  by (simp add: loaded_ledger_def loadInventoryData_def lab_env_def empty_ledger_def Let_def
      lab_user_def db_list_items_def stored_kit_def)

lemma loaded_transactions: "transactions loaded_ledger = []"
  by (simp add: loaded_ledger_def loadInventoryData_def lab_env_def empty_ledger_def Let_def
      lab_user_def db_list_transactions_def)

lemma buffer_id_eq: "buffer_id = ''2000x7k2m9qa0''"
  by code_simp

lemma buffer_items: "items buffer_ledger = [stored_kit, buffer_item]"
  by (simp add: buffer_ledger_def op_defs lab_env_def loaded_items buffer_item_def buffer_id_def
      lab_user_def)

lemma buffer_transactions: "length (transactions buffer_ledger) = 1"
  by (simp add: buffer_ledger_def op_defs lab_env_def loaded_transactions)

lemma find_buffer:
  "find (\<lambda>i. id_item i = buffer_id) (items buffer_ledger) = Some buffer_item"
  by (simp add: buffer_items buffer_item_def stored_kit_def buffer_id_eq ItemData.defs
      InventoryItem.defs)

lemma find_map_same_key:
  assumes "find (\<lambda>i. key i = k) xs = Some x" and "\<And>i. key (f i) = key i"
  shows "find (\<lambda>i. key i = k) (map (\<lambda>i. if key i = k then f i else i) xs) = Some (f x)"
  using assms by (induction xs) (auto split: if_splits)


lemma merge_refresh:
  "merge item (updates\<lparr>updatedAt_p := Some t\<rparr>) = (merge item updates)\<lparr>updatedAt := t\<rparr>"
  by (simp add: merge_def spread_def)





section \<open>The transaction log\<close>





section \<open>Setting a quantity\<close>

text \<open>
  C3. When \<^verbatim>\<open>updateQuantity(id, newQuantity, reason?)\<close> finds an item with the given
  id (the first one in memory) and resolves, it has appended one transaction for that
  id whose \<open>quantityChange\<close> is \<open>newQuantity - previousQuantity\<close>, whose kind is
  \<open>Add\<close> for a positive change, \<open>Remove\<close> for a negative one and \<open>Adjust\<close> for
  none, which records the previous and the new quantity, and whose reason is the given
  one, or "Manual adjustment" when none is given. Looking the id up afterwards gives
  the item with the new quantity and with the clock reading of the call as update
  timestamp; the items with another id are untouched.
\<close>

theorem updateQuantity_records_change:
  assumes f: "find (\<lambda>i. id_item i = ident) (items s) = Some item"
      and ok: "result (updateQuantity e ident q r s) = Inr ()"
  shows "let out = updateQuantity e ident q r s; t = last (transactions (ledger out)) in
     transactions (ledger out) = transactions s @ [t] \<and>
     itemId t = ident \<and>
     quantityChange t = q - quantity item \<and>
     (q - quantity item > 0 \<longrightarrow> transactionType t = Add) \<and>
     (q - quantity item < 0 \<longrightarrow> transactionType t = Remove) \<and>
     (q - quantity item = 0 \<longrightarrow> transactionType t = Adjust) \<and>
     previousQuantity t = quantity item \<and> newQuantity t = q \<and>
     reason t = Some (case r of None \<Rightarrow> ''Manual adjustment'' | Some given \<Rightarrow> given) \<and>
     getItemById (ledger out) ident = Some (item\<lparr>quantity := q, updatedAt := clock e 0\<rparr>) \<and>
     length (items (ledger out)) = length (items s) \<and>
     (\<forall>k < length (items s).
        id_item (items s ! k) \<noteq> ident \<longrightarrow> items (ledger out) ! k = items s ! k)"
proof -
  have g: "find (\<lambda>i. id_item i = ident)
        (map (\<lambda>i. if id_item i = ident then i\<lparr>quantity := q, updatedAt := clock e 0\<rparr> else i)
           (items s))
      = Some (item\<lparr>quantity := q, updatedAt := clock e 0\<rparr>)"
    using find_map_same_key
      [where key = id_item and f = "\<lambda>i. i\<lparr>quantity := q, updatedAt := clock e 0\<rparr>", OF f]
    by simp
  show ?thesis
    using f ok g by (auto simp: op_defs getItemById_def split: option.splits if_splits)
qed

text \<open>
  The buffer holds 50. Setting it to 5 because it was "used" records a removal of 45;
  setting it to 80 without a reason records an addition with the default reason;
  setting it to 50 records an adjustment.
\<close>

theorem updateQuantity_records_change_witness:
  "find (\<lambda>i. id_item i = buffer_id) (items buffer_ledger) = Some buffer_item \<and>
   result (updateQuantity (lab_env 3000) buffer_id 5 (Some ''used'') buffer_ledger) = Inr () \<and>
   (let out = updateQuantity (lab_env 3000) buffer_id 5 (Some ''used'') buffer_ledger;
        t = last (transactions (ledger out))
    in length (transactions (ledger out)) = 2 \<and> quantityChange t = - 45 \<and>
       transactionType t = Remove \<and> previousQuantity t = 50 \<and> newQuantity t = 5 \<and>
       reason t = Some ''used'' \<and>
       map_option quantity (getItemById (ledger out) buffer_id) = Some 5 \<and>
       map_option updatedAt (getItemById (ledger out) buffer_id) = Some 3000) \<and>
   result (updateQuantity (lab_env 3000) buffer_id 80 None buffer_ledger) = Inr () \<and>
   (let t = last (transactions (ledger
              (updateQuantity (lab_env 3000) buffer_id 80 None buffer_ledger)))
    in transactionType t = Add \<and> quantityChange t = 30 \<and>
       reason t = Some ''Manual adjustment'') \<and>
   result (updateQuantity (lab_env 3000) buffer_id 50 None buffer_ledger) = Inr () \<and>
   (let t = last (transactions (ledger
              (updateQuantity (lab_env 3000) buffer_id 50 None buffer_ledger)))
    in transactionType t = Adjust \<and> quantityChange t = 0)"
proof -
  have ok: "result (updateQuantity (lab_env 3000) buffer_id q r buffer_ledger) = Inr ()"
    for q r
    by (simp add: op_defs find_buffer lab_env_def)
  have q: "quantity buffer_item = 50"
    by (simp add: buffer_item_def buffer_data_def ItemData.defs InventoryItem.defs)
  have c: "clock (lab_env 3000) 0 = 3000"
    by (simp add: lab_env_def)
  let ?out = "updateQuantity (lab_env 3000) buffer_id 5 (Some ''used'') buffer_ledger"
  note th = updateQuantity_records_change [OF find_buffer ok, unfolded Let_def]
  from th [of 5 "Some ''used''"] have "transactions (ledger ?out) =
      transactions buffer_ledger @ [last (transactions (ledger ?out))]"
    by (rule conjunct1)
  from arg_cong [OF this, of length] have l: "length (transactions (ledger ?out)) = 2"
    by (simp add: buffer_transactions)
  from th [of 5 "Some ''used''"] q c have used:
    "quantityChange (last (transactions (ledger ?out))) = - 45"
    "transactionType (last (transactions (ledger ?out))) = Remove"
    "previousQuantity (last (transactions (ledger ?out))) = 50"
    "newQuantity (last (transactions (ledger ?out))) = 5"
    "reason (last (transactions (ledger ?out))) = Some ''used''"
    "getItemById (ledger ?out) buffer_id = Some (buffer_item\<lparr>quantity := 5, updatedAt := 3000\<rparr>)"
    by simp_all
  from th [of 80 None] q have received:
    "transactionType (last (transactions (ledger
        (updateQuantity (lab_env 3000) buffer_id 80 None buffer_ledger)))) = Add"
    "quantityChange (last (transactions (ledger
        (updateQuantity (lab_env 3000) buffer_id 80 None buffer_ledger)))) = 30"
    "reason (last (transactions (ledger
        (updateQuantity (lab_env 3000) buffer_id 80 None buffer_ledger)))) = Some ''Manual adjustment''"
    by simp_all
  from th [of 50 None] q have counted:
    "transactionType (last (transactions (ledger
        (updateQuantity (lab_env 3000) buffer_id 50 None buffer_ledger)))) = Adjust"
    "quantityChange (last (transactions (ledger
        (updateQuantity (lab_env 3000) buffer_id 50 None buffer_ledger)))) = 0"
    by simp_all
  from l used received counted find_buffer ok show ?thesis
    by (simp add: Let_def)
qed

section \<open>Unknown ids\<close>

text \<open>
  C5. For an id that no item in memory carries, \<^verbatim>\<open>deleteItem\<close> and
  \<^verbatim>\<open>updateQuantity\<close> reject with the not-found error, leave the items and the
  transactions in memory as they were, and issue no persistence call.
\<close>

theorem unknown_id_rejected:
  assumes "ident \<notin> id_item ` set (items s)"
  shows "result (deleteItem e ident s) = Inl ItemNotFound \<and>
     ledger (deleteItem e ident s) = s \<and>
     issued (deleteItem e ident s) = [] \<and>
     result (updateQuantity e ident q r s) = Inl ItemNotFound \<and>
     ledger (updateQuantity e ident q r s) = s \<and>
     issued (updateQuantity e ident q r s) = []"
proof -
  have "find (\<lambda>i. id_item i = ident) (items s) = None"
    using assms by (auto simp: find_None_iff)
  then show ?thesis
    by (simp add: deleteItem_def updateQuantity_def rejects_def)
qed

theorem unknown_id_rejected_witness:
  "''zz'' \<notin> id_item ` set (items loaded_ledger) \<and>
   result (deleteItem (lab_env 3000) ''zz'' loaded_ledger) = Inl ItemNotFound \<and>
   ledger (deleteItem (lab_env 3000) ''zz'' loaded_ledger) = loaded_ledger \<and>
   issued (deleteItem (lab_env 3000) ''zz'' loaded_ledger) = [] \<and>
   result (updateQuantity (lab_env 3000) ''zz'' 7 None loaded_ledger) = Inl ItemNotFound \<and>
   ledger (updateQuantity (lab_env 3000) ''zz'' 7 None loaded_ledger) = loaded_ledger \<and>
   issued (updateQuantity (lab_env 3000) ''zz'' 7 None loaded_ledger) = []"
proof -
  have h: "''zz'' \<notin> id_item ` set (items loaded_ledger)"
    by (simp add: loaded_items stored_kit_def)
  from unknown_id_rejected [OF h, of "lab_env 3000" 7 None] h show ?thesis
    by simp
qed

section \<open>Stock levels\<close>

text \<open>
  C4, evaluated on the code. The ledger loaded from the store holds one kit, with
  quantity 3 and minimum stock level 5. The quantity dialog of the inventory table hands
  the number typed by the user to \<^verbatim>\<open>updateQuantity\<close> as it is; for \<open>-5\<close> the call
  resolves and the kit in memory has quantity \<open>-5\<close>.
\<close>

theorem negative_quantity_stored:
  "list_all (\<lambda>i. 0 \<le> quantity i \<and> 0 \<le> minimumStockLevel i) (items loaded_ledger) \<and>
   result (updateQuantity (lab_env 3000) ''k1'' (- 5) None loaded_ledger) = Inr () \<and>
   map quantity (items (ledger (updateQuantity (lab_env 3000) ''k1'' (- 5) None loaded_ledger)))
     = [- 5]"
  by (simp add: op_defs loaded_items stored_kit_def lab_env_def)

text \<open>
  C6. \<^verbatim>\<open>getLowStockItems\<close> returns exactly the items in memory whose quantity is at
  most their minimum stock level, and the order of the items in memory has no
  influence on which items, and how many times each, are returned.
\<close>

theorem low_stock_exact:
  "set (getLowStockItems s) =
     {item \<in> set (items s). quantity item \<le> minimumStockLevel item} \<and>
   (mset (items s') = mset (items s) \<longrightarrow>
      mset (getLowStockItems s') = mset (getLowStockItems s))"
proof -
  have "mset (getLowStockItems s') = mset (getLowStockItems s)"
    if "mset (items s') = mset (items s)"
    using that by (simp add: getLowStockItems_def)
  then show ?thesis
    by (auto simp: getLowStockItems_def)
qed

theorem low_stock_exact_witness:
  "mset (items (buffer_ledger\<lparr>items := rev (items buffer_ledger)\<rparr>)) = mset (items buffer_ledger) \<and>
   getLowStockItems buffer_ledger = [stored_kit] \<and>
   getLowStockItems (buffer_ledger\<lparr>items := rev (items buffer_ledger)\<rparr>) = [stored_kit]"
proof -
  let ?reversed = "buffer_ledger\<lparr>items := rev (items buffer_ledger)\<rparr>"
  have a: "getLowStockItems buffer_ledger = [stored_kit]"
    by (simp add: getLowStockItems_def buffer_items stored_kit_def buffer_item_def
        buffer_data_def ItemData.defs InventoryItem.defs)
  have m: "mset (items ?reversed) = mset (items buffer_ledger)"
    by simp
  from low_stock_exact [of buffer_ledger ?reversed] m
  have "mset (getLowStockItems ?reversed) = mset (getLowStockItems buffer_ledger)"
    by blast
  with a have "getLowStockItems ?reversed = [stored_kit]"
    by simp
  with a m show ?thesis
    by simp
qed

section \<open>Expiring items\<close>




section \<open>The order of the collections\<close>




section \<open>Adding an item and looking it up\<close>




section \<open>Updating the fields of an item\<close>

text \<open>
  C10. When \<^verbatim>\<open>updateItem(id, updates)\<close> resolves, the transactions in memory are the
  same as before and no transaction has been sent to the store; the items in memory
  keep their places; each item with the given id is the old item with the updates
  merged in and the clock reading of the call as update timestamp, and each item with
  another id is unchanged.
\<close>

theorem updateItem_frame:
  assumes "result (updateItem e ident updates s) = Inr ()"
  shows "transactions (ledger (updateItem e ident updates s)) = transactions s \<and>
    (\<forall>t. TransactionsCreate t \<notin> set (issued (updateItem e ident updates s))) \<and>
    length (items (ledger (updateItem e ident updates s))) = length (items s) \<and>
    (\<forall>k < length (items s).
       items (ledger (updateItem e ident updates s)) ! k =
         (if id_item (items s ! k) = ident
          then (merge (items s ! k) updates)\<lparr>updatedAt := clock e 0\<rparr>
          else items s ! k))"
  using assms by (auto simp: op_defs merge_refresh split: if_splits)

theorem updateItem_frame_witness:
  "result (updateItem (lab_env 3000) ''k1'' kit_moved buffer_ledger) = Inr () \<and>
   transactions (ledger (updateItem (lab_env 3000) ''k1'' kit_moved buffer_ledger))
     = transactions buffer_ledger \<and>
   items (ledger (updateItem (lab_env 3000) ''k1'' kit_moved buffer_ledger)) ! 0
     = stored_kit\<lparr>location := Some ''Freezer 2'', updatedAt := 3000\<rparr> \<and>
   items (ledger (updateItem (lab_env 3000) ''k1'' kit_moved buffer_ledger)) ! 1
     = buffer_item"
proof -
  have ok: "result (updateItem (lab_env 3000) ''k1'' kit_moved buffer_ledger) = Inr ()"
    by (simp add: op_defs lab_env_def)
  have ids: "id_item (items buffer_ledger ! 0) = ''k1''"
    "id_item (items buffer_ledger ! 1) \<noteq> ''k1''"
    by (simp_all add: buffer_items stored_kit_def buffer_item_def buffer_id_eq ItemData.defs
        InventoryItem.defs)
  have m: "(merge stored_kit kit_moved)\<lparr>updatedAt := clock (lab_env 3000) 0\<rparr>
      = stored_kit\<lparr>location := Some ''Freezer 2'', updatedAt := 3000\<rparr>"
    by (simp add: merge_def spread_def kit_moved_def no_updates_def lab_env_def stored_kit_def)
  note th = updateItem_frame [OF ok]
  from th have t: "transactions (ledger (updateItem (lab_env 3000) ''k1'' kit_moved buffer_ledger))
      = transactions buffer_ledger"
    by (rule conjunct1)
  from th have nth: "\<forall>k < length (items buffer_ledger).
       items (ledger (updateItem (lab_env 3000) ''k1'' kit_moved buffer_ledger)) ! k =
         (if id_item (items buffer_ledger ! k) = ''k1''
          then (merge (items buffer_ledger ! k) kit_moved)\<lparr>updatedAt := clock (lab_env 3000) 0\<rparr>
          else items buffer_ledger ! k)"
    by blast
  have len: "length (items buffer_ledger) = 2"
    by (simp add: buffer_items)
  from nth [rule_format, of 0] ids(1) len m
  have i0: "items (ledger (updateItem (lab_env 3000) ''k1'' kit_moved buffer_ledger)) ! 0
      = stored_kit\<lparr>location := Some ''Freezer 2'', updatedAt := 3000\<rparr>"
    by (simp add: buffer_items)
  from nth [rule_format, of 1] ids(2) len
  have i1: "items (ledger (updateItem (lab_env 3000) ''k1'' kit_moved buffer_ledger)) ! 1
      = buffer_item"
    by (simp add: buffer_items)
  from ok t i0 i1 show ?thesis
    by simp
qed

end
